theory Spec2Isabelle
  imports Main "HOL-Library.AList" "HOL-Library.Sublist"
begin

section \<open>JavaScript values\<close>

text \<open>
  The adapter (modules/bidglassBidAdapter.js) works on untyped JavaScript data: bid
  requests, consent objects and server responses are plain objects whose fields may be
  missing or of any type. A value is therefore one of the seven shapes below. An object
  is the list of its own properties in insertion order. The Number type is the type
  parameter \<open>'n\<close>: the adapter never computes with numbers, it only creates, prints,
  parses and tests them, and does so through built-ins of the JavaScript runtime.
  A string is the sequence of the bytes of its UTF-8 encoding.
\<close>

datatype 'n jsval =
    JUndefined
  | JNull
  | JBool bool
  | JNum 'n
  | JStr string
  | JArr "'n jsval list"
  | JObj "(string \<times> 'n jsval) list"

type_synonym 'n obj = "(string \<times> 'n jsval) list"

datatype js_error = TypeError | SyntaxError

text \<open>
  The built-ins of the runtime that the adapter calls and that are taken as given:
  the literal numbers, \<open>ToBoolean\<close> and \<open>ToString\<close> of a number, \<open>parseFloat\<close> and
  \<open>parseInt(_, 10)\<close> on the string their argument was converted to, and
  \<open>JSON.stringify\<close> / \<open>JSON.parse\<close> (\<open>None\<close> when \<open>JSON.parse\<close> throws). \<open>'d\<close> is the type of
  serialised data.
\<close>

record ('n, 'd) builtins =
  number :: "nat \<Rightarrow> 'n"
  is_falsy :: "'n \<Rightarrow> bool"
  num_str :: "'n \<Rightarrow> string"
  parse_float :: "string \<Rightarrow> 'n"
  parse_int10 :: "string \<Rightarrow> 'n"
  json_stringify :: "'n jsval \<Rightarrow> 'd"
  json_parse :: "'d \<Rightarrow> 'n jsval option"

text \<open>\<open>v == null\<close>: true of \<open>null\<close> and \<open>undefined\<close> only.\<close>

fun nullish :: "'n jsval \<Rightarrow> bool" where
  "nullish JUndefined = True"
| "nullish JNull = True"
| "nullish _ = False"

text \<open>\<open>ToBoolean\<close>, as used by \<open>&&\<close>, \<open>||\<close>, \<open>?:\<close> and \<open>if\<close>.\<close>

fun truthy :: "('n, 'd) builtins \<Rightarrow> 'n jsval \<Rightarrow> bool" where
  "truthy ops JUndefined = False"
| "truthy ops JNull = False"
| "truthy ops (JBool b) = b"
| "truthy ops (JNum n) = (\<not> is_falsy ops n)"
| "truthy ops (JStr s) = (s \<noteq> [])"
| "truthy ops (JArr xs) = True"
| "truthy ops (JObj kvs) = True"

definition js_and :: "('n, 'd) builtins \<Rightarrow> 'n jsval \<Rightarrow> 'n jsval \<Rightarrow> 'n jsval" where
  "js_and ops a b = (if truthy ops a then b else a)"

definition js_or :: "('n, 'd) builtins \<Rightarrow> 'n jsval \<Rightarrow> 'n jsval \<Rightarrow> 'n jsval" where
  "js_or ops a b = (if truthy ops a then a else b)"

text \<open>
  \<open>v.k\<close> for the property names the adapter reads (none of them is \<open>length\<close>, an index or
  a name inherited from a prototype): the own property of an object, \<open>undefined\<close> when the
  object has none or when \<open>v\<close> is a primitive or an array. Reading a property of \<open>null\<close> or
  \<open>undefined\<close> throws; every caller below tests for that before it reads.
\<close>

fun get_prop :: "'n jsval \<Rightarrow> string \<Rightarrow> 'n jsval" where
  "get_prop (JObj kvs) k = (case map_of kvs k of Some v \<Rightarrow> v | None \<Rightarrow> JUndefined)"
| "get_prop _ k = JUndefined"

text \<open>\<open>o.k = v\<close> and \<open>delete o.k\<close> on an object.\<close>

definition set_prop :: "'n obj \<Rightarrow> string \<Rightarrow> 'n jsval \<Rightarrow> 'n obj" where
  "set_prop kvs k v = AList.update k v kvs"

definition delete_prop :: "'n obj \<Rightarrow> string \<Rightarrow> 'n obj" where
  "delete_prop kvs k = AList.delete k kvs"

text \<open>\<open>v[0]\<close> where \<open>v\<close> is an array.\<close>

fun first_elem :: "'n jsval list \<Rightarrow> 'n jsval" where
  "first_elem [] = JUndefined"
| "first_elem (x # xs) = x"

text \<open>\<open>Array.prototype.join\<close> on strings.\<close>

fun join :: "string \<Rightarrow> string list \<Rightarrow> string" where
  "join sep [] = []"
| "join sep [x] = x"
| "join sep (x # y # ys) = x @ sep @ join sep (y # ys)"

text \<open>
  \<open>ToString\<close>. An array prints as its elements joined by commas, \<open>null\<close> and \<open>undefined\<close>
  elements as the empty string; a plain object prints as \<open>[object Object]\<close>. The conversion
  throws a TypeError on an object that has an own property \<open>toString\<close> (which, in data,
  is not a function): \<open>stringifiable\<close> is false on exactly the values where it throws.
\<close>

fun to_string :: "('n, 'd) builtins \<Rightarrow> 'n jsval \<Rightarrow> string" where
  "to_string ops JUndefined = ''undefined''"
| "to_string ops JNull = ''null''"
| "to_string ops (JBool b) = (if b then ''true'' else ''false'')"
| "to_string ops (JNum n) = num_str ops n"
| "to_string ops (JStr s) = s"
| "to_string ops (JArr xs) =
     join '','' (map (\<lambda>x. if nullish x then [] else to_string ops x) xs)"
| "to_string ops (JObj kvs) = ''[object Object]''"

fun stringifiable :: "'n jsval \<Rightarrow> bool" where
  "stringifiable (JArr xs) = list_all stringifiable xs"
| "stringifiable (JObj kvs) = (''toString'' \<notin> set (map fst kvs))"
| "stringifiable _ = True"

text \<open>
  \<open>encodeURIComponent\<close>: every byte of the UTF-8 encoding that is not an unreserved
  character becomes \<open>%XX\<close>, in upper-case hexadecimal.
\<close>

definition unreserved :: "char \<Rightarrow> bool" where
  "unreserved c =
     (c \<in> set (''ABCDEFGHIJKLMNOPQRSTUVWXYZabcdefghijklmnopqrstuvwxyz0123456789-_.!~*()''
               @ [CHR 0x27]))"

definition hex_digit :: "nat \<Rightarrow> char" where
  "hex_digit n = ''0123456789ABCDEF'' ! (n mod 16)"

definition pct_encode :: "char \<Rightarrow> string" where
  "pct_encode c =
     [CHR ''%'', hex_digit (of_char c div 16), hex_digit (of_char c mod 16)]"

definition encodeURIComponent :: "string \<Rightarrow> string" where
  "encodeURIComponent s = concat (map (\<lambda>c. if unreserved c then [c] else pct_encode c) s)"

text \<open>
  \<open>String.prototype.split\<close> with a one-character separator, and \<open>parts[i]\<close> inside a
  string concatenation (a missing part prints as \<open>undefined\<close>).
\<close>

fun split_on :: "char \<Rightarrow> string \<Rightarrow> string list" where
  "split_on c [] = [[]]"
| "split_on c (x # xs) =
     (if x = c then [] # split_on c xs
      else (case split_on c xs of
              [] \<Rightarrow> [[x]]
            | w # ws \<Rightarrow> (x # w) # ws))"

definition part_str :: "string list \<Rightarrow> nat \<Rightarrow> string" where
  "part_str parts i = (if i < length parts then parts ! i else ''undefined'')"

text \<open>
  \<open>s.replace(token, f)\<close> with a string pattern replaces the first occurrence only and
  calls \<open>f\<close> only when there is one. \<open>find_first token s\<close> is the text before and the
  text after the first occurrence.
\<close>

fun find_first :: "string \<Rightarrow> string \<Rightarrow> (string \<times> string) option" where
  "find_first token [] = (if token = [] then Some ([], []) else None)"
| "find_first token (c # cs) =
     (if prefix token (c # cs) then Some ([], drop (length token) (c # cs))
      else (case find_first token cs of
              None \<Rightarrow> None
            | Some (pre, post) \<Rightarrow> Some (c # pre, post)))"


section \<open>Helpers of the host library\<close>

text \<open>
  Modelled from the spec: \<open>isArray\<close> of the host's utility module, which is not among the
  sources. The spec: keep only elements that are themselves lists.
\<close>

fun isArray :: "'n jsval \<Rightarrow> bool" where
  "isArray (JArr xs) = True"
| "isArray _ = False"

text \<open>
  Modelled from the spec: \<open>deepClone\<close> of the host's utility module, which is not among
  the sources. The spec: deep-copy the parameters. The copy shares nothing with its
  argument, so a later write to the copy does not reach the original; on values that is
  the identity.
\<close>

definition deepClone :: "'n obj \<Rightarrow> 'n obj" where
  "deepClone kvs = kvs"

text \<open>
  Modelled from the spec: \<open>getBidIdParameter\<close> of the host's utility module, which is not
  among the sources. The spec: extract the required slot-identifier parameter.
\<close>

definition getBidIdParameter :: "string \<Rightarrow> 'n obj \<Rightarrow> 'n jsval" where
  "getBidIdParameter key paramsObj = get_prop (JObj paramsObj) key"

text \<open>The elements of an array (used only where \<open>isArray\<close> has been tested).\<close>

fun elems :: "'n jsval \<Rightarrow> 'n jsval list" where
  "elems (JArr xs) = xs"
| "elems _ = []"

section \<open>The data of the adapter\<close>

text \<open>
  A bid request of the host. \<open>sizes\<close> is kept untyped, since \<open>buildRequests\<close> tests its
  shape; \<open>params\<close> is an object, as \<open>isBidRequestValid\<close> has read \<open>params.adUnitId\<close> of
  every request that reaches \<open>buildRequests\<close>. All further fields of the host's object
  (bidder, adUnitCode, transactionId, ...) are the record's extension.
\<close>

record 'n bid_request =
  bidId :: "'n jsval"
  sizes :: "'n jsval"
  params :: "'n obj"

text \<open>
  \<open>window['bidglass']\<close>: either not an object (no provider on the page), or an object
  whose \<open>getTargeting\<close> is missing (\<open>None\<close>) or is a function of the ad unit id and the
  current targeting.
\<close>

datatype 'n bidglass_global =
    NotAnObject
  | ProviderObject "('n jsval \<Rightarrow> 'n jsval \<Rightarrow> 'n jsval) option"

text \<open>
  What the adapter reads of the browser: how deep the current frame is nested
  (\<open>0\<close> for the top frame, whose parent is itself), its location, the referrer and the
  global targeting provider.
\<close>

record 'n window =
  frame_depth :: nat
  location_href :: string
  location_protocol :: string
  location_hostname :: string
  location_ancestorOrigins :: "string list option"
  document_referrer :: string
  bidglass :: "'n bidglass_global"

definition window_is_top :: "('n, 'a) window_scheme \<Rightarrow> bool" where
  "window_is_top w = (frame_depth w = 0)"

definition parent_is_top :: "('n, 'a) window_scheme \<Rightarrow> bool" where
  "parent_is_top w = (frame_depth w \<le> 1)"

text \<open>The server request; \<open>http_method\<close> is its field \<open>method\<close>.\<close>

record 'd server_request =
  http_method :: string
  url :: string
  data :: 'd
  contentType :: string
  withCredentials :: bool

record 'n server_response =
  bidResponses :: "'n jsval list"

section \<open>isBidRequestValid\<close>

definition isBidRequestValid :: "('n, 'd) builtins \<Rightarrow> ('n, 'a) bid_request_scheme \<Rightarrow> bool" where
  "isBidRequestValid ops bid = truthy ops (get_prop (JObj (params bid)) ''adUnitId'')"

section \<open>buildRequests\<close>

definition getReferer :: "('n, 'a) window_scheme \<Rightarrow> 'n jsval" where
  "getReferer w =
     (if window_is_top w then JStr (location_href w)
      else if parent_is_top w then JStr (document_referrer w)
      else JNull)"

definition getOrigins :: "('n, 'a) window_scheme \<Rightarrow> string list" where
  "getOrigins w =
     (let ori = [location_protocol w @ ''//'' @ location_hostname w] in
      case location_ancestorOrigins w of
        Some ancestors \<Rightarrow> ori @ ancestors
      | None \<Rightarrow>
          if \<not> window_is_top w then
            (let parts = split_on (CHR ''/'') (document_referrer w);
                 ori1 = ori @ [part_str parts 0 @ ''//'' @ part_str parts 2]
             in if \<not> parent_is_top w then ori1 @ [''null''] else ori1)
          else ori)"

text \<open>
  \<open>Object.keys(v).length > 0\<close> for a truthy \<open>v\<close>: an object has an own property, an array
  an element, a string a character.
\<close>

fun has_keys :: "'n jsval \<Rightarrow> bool" where
  "has_keys (JObj kvs) = (kvs \<noteq> [])"
| "has_keys (JArr xs) = (xs \<noteq> [])"
| "has_keys (JStr s) = (s \<noteq> [])"
| "has_keys _ = False"

text \<open>
  The body of the loop over the bid requests. It assigns to \<open>bid.sizes\<close> twice, so it
  returns the request as it is after the iteration, together with the impression.
\<close>

definition buildImp ::
  "('n, 'd) builtins \<Rightarrow> 'n bidglass_global \<Rightarrow> ('n, 'a) bid_request_scheme \<Rightarrow>
   ('n, 'a) bid_request_scheme \<times> 'n jsval" where
  "buildImp ops bg bid =
     (let bid1 = bid\<lparr>sizes :=
            (if isArray (sizes bid) \<and> isArray (first_elem (elems (sizes bid)))
             then sizes bid else JArr [sizes bid])\<rparr>;
          bid2 = bid1\<lparr>sizes := JArr (filter isArray (elems (sizes bid1)))\<rparr>;
          adUnitId = getBidIdParameter ''adUnitId'' (params bid2);
          options = delete_prop (deepClone (params bid2)) ''adUnitId'';
          options1 =
            (case bg of
               ProviderObject (Some getTargeting) \<Rightarrow>
                 (let targeting = getTargeting adUnitId (get_prop (JObj options) ''targeting'')
                  in if truthy ops targeting \<and> has_keys targeting
                     then set_prop options ''targeting'' targeting
                     else options)
             | _ \<Rightarrow> options)
      in (bid2,
          JObj [(''bidId'', bidId bid2),
                (''sizes'', sizes bid2),
                (''adUnitId'', adUnitId),
                (''options'', JObj options1)]))"

text \<open>\<open>_each(validBidRequests, ...)\<close>: the requests after the loop, and \<open>imps\<close>.\<close>

fun buildImps ::
  "('n, 'd) builtins \<Rightarrow> 'n bidglass_global \<Rightarrow> ('n, 'a) bid_request_scheme list \<Rightarrow>
   ('n, 'a) bid_request_scheme list \<times> 'n jsval list" where
  "buildImps ops bg [] = ([], [])"
| "buildImps ops bg (bid # bids) =
     (let (bid', imp) = buildImp ops bg bid;
          (bids', imps) = buildImps ops bg bids
      in (bid' # bids', imp # imps))"

text \<open>The consent data read from the bidder request.\<close>

definition gdprConsentObj :: "('n, 'd) builtins \<Rightarrow> 'n jsval \<Rightarrow> 'n jsval" where
  "gdprConsentObj ops bidderRequest =
     js_and ops bidderRequest (get_prop bidderRequest ''gdprConsent'')"

definition gppConsentObj :: "('n, 'd) builtins \<Rightarrow> 'n jsval \<Rightarrow> 'n jsval" where
  "gppConsentObj ops bidderRequest =
     js_and ops bidderRequest (get_prop bidderRequest ''gppConsent'')"

definition gppApplicableSections :: "('n, 'd) builtins \<Rightarrow> 'n jsval \<Rightarrow> 'n jsval" where
  "gppApplicableSections ops bidderRequest =
     js_and ops (gppConsentObj ops bidderRequest)
       (get_prop (gppConsentObj ops bidderRequest) ''applicableSections'')"

definition ortb2Regs :: "('n, 'd) builtins \<Rightarrow> 'n jsval \<Rightarrow> 'n jsval" where
  "ortb2Regs ops bidderRequest =
     js_and ops (js_and ops bidderRequest (get_prop bidderRequest ''ortb2''))
       (get_prop (get_prop bidderRequest ''ortb2'') ''regs'')"

definition ortb2Gpp :: "('n, 'd) builtins \<Rightarrow> 'n jsval \<Rightarrow> 'n jsval" where
  "ortb2Gpp ops bidderRequest =
     js_and ops (ortb2Regs ops bidderRequest) (get_prop (ortb2Regs ops bidderRequest) ''gpp'')"

text \<open>The four consent fields of the payload.\<close>

definition gdprApplies :: "('n, 'd) builtins \<Rightarrow> 'n jsval \<Rightarrow> 'n jsval" where
  "gdprApplies ops bidderRequest =
     (if truthy ops (js_and ops (gdprConsentObj ops bidderRequest)
                       (get_prop (gdprConsentObj ops bidderRequest) ''gdprApplies''))
      then JNum (number ops 1) else JStr [])"

definition gdprConsent :: "('n, 'd) builtins \<Rightarrow> 'n jsval \<Rightarrow> 'n jsval" where
  "gdprConsent ops bidderRequest =
     js_or ops (js_and ops (gdprConsentObj ops bidderRequest)
                  (get_prop (gdprConsentObj ops bidderRequest) ''consentString''))
       (JStr [])"

definition gppString :: "('n, 'd) builtins \<Rightarrow> 'n jsval \<Rightarrow> 'n jsval" where
  "gppString ops bidderRequest =
     js_or ops
       (js_or ops (js_and ops (gppConsentObj ops bidderRequest)
                     (get_prop (gppConsentObj ops bidderRequest) ''gppString''))
          (ortb2Gpp ops bidderRequest))
       (JStr [])"

text \<open>
  \<open>gppSid\<close> is the only field whose computation can throw: \<open>join\<close> converts the
  elements to strings.
\<close>

definition gppSid :: "('n, 'd) builtins \<Rightarrow> 'n jsval \<Rightarrow> js_error + 'n jsval" where
  "gppSid ops bidderRequest =
     (if isArray (gppApplicableSections ops bidderRequest)
         \<and> length (elems (gppApplicableSections ops bidderRequest)) \<noteq> 0
      then (if stringifiable (gppApplicableSections ops bidderRequest)
            then Inr (JStr (to_string ops (gppApplicableSections ops bidderRequest)))
            else Inl TypeError)
      else Inr (js_or ops
                  (js_and ops (ortb2Gpp ops bidderRequest)
                     (get_prop (ortb2Regs ops bidderRequest) ''gpp_sid''))
                  (JStr [])))"

text \<open>
  The payload \<open>bidReq\<close>. \<open>uid\<close> is the identifier that \<open>getUniqueIdentifierStr()\<close>, a
  helper of the host that is not among the sources, returned to this call.
\<close>

definition bidReq ::
  "('n, 'd) builtins \<Rightarrow> ('n, 'a) window_scheme \<Rightarrow> string \<Rightarrow> 'n jsval list \<Rightarrow> 'n jsval \<Rightarrow>
   js_error + 'n jsval" where
  "bidReq ops w uid imps bidderRequest =
     (case gppSid ops bidderRequest of
        Inl e \<Rightarrow> Inl e
      | Inr sid \<Rightarrow>
          Inr (JObj [(''reqId'', JStr uid),
                     (''imps'', JArr imps),
                     (''ref'', getReferer w),
                     (''ori'', JArr (map JStr (getOrigins w))),
                     (''gdprApplies'', gdprApplies ops bidderRequest),
                     (''gdprConsent'', gdprConsent ops bidderRequest),
                     (''gppString'', gppString ops bidderRequest),
                     (''gppSid'', sid)]))"

text \<open>
  \<open>buildRequests\<close> returns the server request, or throws; in both cases the caller's bid
  requests are as the loop left them, so they are part of the result.
\<close>

definition buildRequests ::
  "('n, 'd) builtins \<Rightarrow> ('n, 'b) window_scheme \<Rightarrow> string \<Rightarrow>
   ('n, 'a) bid_request_scheme list \<Rightarrow> 'n jsval \<Rightarrow>
   ('n, 'a) bid_request_scheme list \<times> (js_error + 'd server_request)" where
  "buildRequests ops w uid validBidRequests bidderRequest =
     (let (bids', imps) = buildImps ops (bidglass w) validBidRequests in
      (bids',
       case bidReq ops w uid imps bidderRequest of
         Inl e \<Rightarrow> Inl e
       | Inr payload \<Rightarrow>
           Inr \<lparr>http_method = ''POST'',
                url = ''https://bid.glass/ad/hb.php?'' @ ''src=$$REPO_AND_VERSION$$'',
                data = json_stringify ops payload,
                contentType = ''text/plain'',
                withCredentials = False\<rparr>))"


section \<open>interpretResponse\<close>

text \<open>
  The function given to \<open>replace\<close>. It reads \<open>origReq[key]\<close> for each of the four keys,
  so it throws when the parsed request is \<open>null\<close>; \<open>key != null\<close> keeps a key unless its
  value is \<open>null\<close> or \<open>undefined\<close>; the template literal converts the value to a string.
\<close>

definition consentKeys :: "string list" where
  "consentKeys = [''gdprApplies'', ''gdprConsent'', ''gppString'', ''gppSid'']"

definition urlEncodedExtras :: "('n, 'd) builtins \<Rightarrow> 'n jsval \<Rightarrow> js_error + string" where
  "urlEncodedExtras ops origReq =
     (if nullish origReq then Inl TypeError
      else
        (let present = filter (\<lambda>key. \<not> nullish (get_prop origReq key)) consentKeys in
         if list_all (\<lambda>key. stringifiable (get_prop origReq key)) present
         then Inr (join ''&''
                (map (\<lambda>key. key @ ''='' @
                        encodeURIComponent (to_string ops (get_prop origReq key)))
                   present))
         else Inl TypeError))"

definition replacement :: "('n, 'd) builtins \<Rightarrow> 'n jsval \<Rightarrow> js_error + string" where
  "replacement ops origReq =
     (case urlEncodedExtras ops origReq of
        Inl e \<Rightarrow> Inl e
      | Inr extras \<Rightarrow> Inr (if extras \<noteq> [] then ''&'' @ extras else []))"

definition replaceToken :: "('n, 'd) builtins \<Rightarrow> 'n jsval \<Rightarrow> string \<Rightarrow> js_error + string" where
  "replaceToken ops origReq ad =
     (case find_first ''&replaceme'' ad of
        None \<Rightarrow> Inr ad
      | Some (pre, post) \<Rightarrow>
          (case replacement ops origReq of
             Inl e \<Rightarrow> Inl e
           | Inr r \<Rightarrow> Inr (pre @ r @ post)))"

text \<open>
  \<open>v && v.length\<close> as a condition: an array or a string is non-empty; an object has a
  truthy own property \<open>length\<close>; any other value has no length.
\<close>

fun has_length :: "('n, 'd) builtins \<Rightarrow> 'n jsval \<Rightarrow> bool" where
  "has_length ops (JArr xs) = (xs \<noteq> [])"
| "has_length ops (JStr s) = (s \<noteq> [])"
| "has_length ops (JObj kvs) = truthy ops (get_prop (JObj kvs) ''length'')"
| "has_length ops _ = False"

definition bidMeta :: "('n, 'd) builtins \<Rightarrow> 'n jsval \<Rightarrow> 'n jsval" where
  "bidMeta ops serverBid =
     (if truthy ops (get_prop serverBid ''meta'')
         \<and> truthy ops (get_prop (get_prop serverBid ''meta'') ''advertiserDomains'')
         \<and> has_length ops (get_prop (get_prop serverBid ''meta'') ''advertiserDomains'')
      then JObj [(''advertiserDomains'',
                  get_prop (get_prop serverBid ''meta'') ''advertiserDomains'')]
      else JObj [])"

text \<open>
  The body of the loop over the server's bids. It throws a TypeError when the entry is
  \<open>null\<close> or \<open>undefined\<close>, when \<open>parseFloat\<close> or \<open>parseInt\<close> cannot convert its argument
  to a string, when \<open>serverBid.ad\<close> is not a string (it has no method \<open>replace\<close>), and when
  the function given to \<open>replace\<close> throws.
\<close>

definition interpretBid ::
  "('n, 'd) builtins \<Rightarrow> 'n jsval \<Rightarrow> 'n jsval \<Rightarrow> js_error + 'n jsval" where
  "interpretBid ops origReq serverBid =
     (if nullish serverBid then Inl TypeError
      else if \<not> stringifiable (get_prop serverBid ''cpm'') then Inl TypeError
      else if \<not> stringifiable (get_prop serverBid ''width'') then Inl TypeError
      else if \<not> stringifiable (get_prop serverBid ''height'') then Inl TypeError
      else
        (case get_prop serverBid ''ad'' of
           JStr markup \<Rightarrow>
             (case replaceToken ops origReq markup of
                Inl e \<Rightarrow> Inl e
              | Inr ad \<Rightarrow>
                  Inr (JObj
                    [(''requestId'', get_prop serverBid ''requestId''),
                     (''cpm'', JNum (parse_float ops (to_string ops (get_prop serverBid ''cpm'')))),
                     (''width'',
                        JNum (parse_int10 ops (to_string ops (get_prop serverBid ''width'')))),
                     (''height'',
                        JNum (parse_int10 ops (to_string ops (get_prop serverBid ''height'')))),
                     (''creativeId'', get_prop serverBid ''creativeId''),
                     (''dealId'', js_or ops (get_prop serverBid ''dealId'') JNull),
                     (''currency'', js_or ops (get_prop serverBid ''currency'') (JStr ''USD'')),
                     (''mediaType'',
                        js_or ops (get_prop serverBid ''mediaType'') (JStr ''banner'')),
                     (''netRevenue'', JBool True),
                     (''ttl'', js_or ops (get_prop serverBid ''ttl'') (JNum (number ops 10))),
                     (''ad'', JStr ad),
                     (''meta'', bidMeta ops serverBid)]))
         | _ \<Rightarrow> Inl TypeError))"

text \<open>
  \<open>_each(serverResponse.body.bidResponses, ...)\<close>: the bids are interpreted in the order
  of the response, each result is pushed, and the first exception ends the call.
\<close>

fun interpretBids ::
  "('n, 'd) builtins \<Rightarrow> 'n jsval \<Rightarrow> 'n jsval list \<Rightarrow> js_error + 'n jsval list" where
  "interpretBids ops origReq [] = Inr []"
| "interpretBids ops origReq (serverBid # rest) =
     (case interpretBid ops origReq serverBid of
        Inl e \<Rightarrow> Inl e
      | Inr bidResponse \<Rightarrow>
          (case interpretBids ops origReq rest of
             Inl e \<Rightarrow> Inl e
           | Inr results \<Rightarrow> Inr (bidResponse # results)))"

definition interpretResponse ::
  "('n, 'd) builtins \<Rightarrow> ('n, 'a) server_response_scheme \<Rightarrow> ('d, 'b) server_request_scheme \<Rightarrow>
   js_error + 'n jsval list" where
  "interpretResponse ops serverResponse serverRequest =
     (case json_parse ops (data serverRequest) of
        None \<Rightarrow> Inl SyntaxError
      | Some origReq \<Rightarrow> interpretBids ops origReq (bidResponses serverResponse))"

section \<open>An instance of the built-ins, for examples\<close>

text \<open>
  The examples below run with these built-ins: a Number is an integer or \<open>NaN\<close>
  (\<open>None\<close>), printed in decimal; \<open>parseInt(_, 10)\<close> reads an optional sign and the leading
  decimal digits after leading blanks; \<open>parseFloat\<close> agrees with it (the examples have no
  fractions); serialised data is the value itself.
\<close>

fun show_nat :: "nat \<Rightarrow> string" where
  "show_nat n =
     (if n < 10 then [hex_digit n] else show_nat (n div 10) @ [hex_digit (n mod 10)])"

declare show_nat.simps [simp del]

definition show_num :: "int option \<Rightarrow> string" where
  "show_num x =
     (case x of
        None \<Rightarrow> ''NaN''
      | Some i \<Rightarrow> (if i < 0 then ''-'' @ show_nat (nat (- i)) else show_nat (nat i)))"

definition is_digit :: "char \<Rightarrow> bool" where
  "is_digit c = (c \<in> set ''0123456789'')"

definition digit_val :: "char \<Rightarrow> nat" where
  "digit_val c = of_char c - 48"

definition read_nat :: "string \<Rightarrow> nat option" where
  "read_nat s =
     (case takeWhile is_digit s of
        [] \<Rightarrow> None
      | ds \<Rightarrow> Some (foldl (\<lambda>acc c. 10 * acc + digit_val c) 0 ds))"

definition read_int :: "string \<Rightarrow> int option" where
  "read_int s =
     (case dropWhile (\<lambda>c. c = CHR '' '') s of
        [] \<Rightarrow> None
      | c # cs \<Rightarrow>
          if c = CHR ''-'' then map_option (\<lambda>n. - int n) (read_nat cs)
          else if c = CHR ''+'' then map_option int (read_nat cs)
          else map_option int (read_nat (c # cs)))"

definition example_ops :: "(int option, int option jsval) builtins" where
  "example_ops =
     \<lparr>number = (\<lambda>n. Some (int n)),
      is_falsy = (\<lambda>x. x = None \<or> x = Some 0),
      num_str = show_num,
      parse_float = read_int,
      parse_int10 = read_int,
      json_stringify = (\<lambda>v. v),
      json_parse = Some\<rparr>"


section \<open>Reading the consent data\<close>

text \<open>
  The guarded reads \<open>a && a.k\<close> of \<open>buildRequests\<close> agree with reading the property
  path, where reading a property of anything but an object gives \<open>undefined\<close>.
\<close>

lemma bidReq_Inr:
  "bidReq ops w uid imps bidderRequest = Inr payload \<Longrightarrow>
   \<exists>sid. gppSid ops bidderRequest = Inr sid \<and>
     payload = JObj [(''reqId'', JStr uid),
                     (''imps'', JArr imps),
                     (''ref'', getReferer w),
                     (''ori'', JArr (map JStr (getOrigins w))),
                     (''gdprApplies'', gdprApplies ops bidderRequest),
                     (''gdprConsent'', gdprConsent ops bidderRequest),
                     (''gppString'', gppString ops bidderRequest),
                     (''gppSid'', sid)]"
  by (auto simp: bidReq_def split: sum.splits)


















section \<open>The referer of the payload\<close>



section \<open>The consent fields of the payload\<close>







section \<open>The impressions\<close>

text \<open>The loop runs its body on each bid request, in order.\<close>

lemma buildImps_map:
  "buildImps ops bg bids =
     (map (\<lambda>bid. fst (buildImp ops bg bid)) bids, map (\<lambda>bid. snd (buildImp ops bg bid)) bids)"
  by (induction bids) (simp_all add: split_def Let_def)

lemma buildImp_bid:
  "fst (buildImp ops bg bid) =
     bid\<lparr>sizes := JArr (filter isArray
              (if isArray (sizes bid) \<and> isArray (first_elem (elems (sizes bid)))
               then elems (sizes bid) else [sizes bid]))\<rparr>"
  by (simp add: buildImp_def Let_def)

lemma buildImp_sizes:
  "get_prop (snd (buildImp ops bg bid)) ''sizes'' =
     JArr (filter isArray
              (if isArray (sizes bid) \<and> isArray (first_elem (elems (sizes bid)))
               then elems (sizes bid) else [sizes bid]))"
  by (simp add: buildImp_def Let_def)




text \<open>
  Claim C3, as amended. When the slot's sizes are a list whose first element is itself a
  list, the normalised sizes (in the impression, and in the bid request after the call) are
  exactly the elements that are lists, in their original order: every other entry is
  dropped, and nothing is raised. A single unwrapped pair becomes the one-element list
  holding that pair; so does every list whose first element is not a list, which is kept
  whole as the only element.
\<close>

theorem sizes_normalized:
  "(\<forall>p rest. sizes bid = JArr (JArr p # rest) \<longrightarrow>
       get_prop (snd (buildImp ops bg bid)) ''sizes'' = JArr (filter isArray (JArr p # rest))
       \<and> sizes (fst (buildImp ops bg bid)) = JArr (filter isArray (JArr p # rest)))
   \<and> (\<forall>w h. \<not> isArray w \<and> sizes bid = JArr [w, h] \<longrightarrow>
       get_prop (snd (buildImp ops bg bid)) ''sizes'' = JArr [JArr [w, h]])
   \<and> (\<forall>xs. sizes bid = JArr xs \<and> \<not> isArray (first_elem xs) \<longrightarrow>
       get_prop (snd (buildImp ops bg bid)) ''sizes'' = JArr [JArr xs])"
  by (simp add: buildImp_sizes buildImp_bid)

text \<open>Two pairs with a malformed entry between them.\<close>

theorem sizes_normalized_witness:
  "sizes \<lparr>bidId = JStr ''b1'',
          sizes = JArr [JArr [JNum (Some 300), JNum (Some 250)], JStr ''fluid'',
                        JArr [JNum (Some 728), JNum (Some 90)]],
          params = [(''adUnitId'', JNum (Some 11))]\<rparr>
     = JArr (JArr [JNum (Some 300), JNum (Some 250)]
             # [JStr ''fluid'', JArr [JNum (Some 728), JNum (Some 90)]])
   \<and> get_prop (snd (buildImp example_ops NotAnObject
        \<lparr>bidId = JStr ''b1'',
         sizes = JArr [JArr [JNum (Some 300), JNum (Some 250)], JStr ''fluid'',
                       JArr [JNum (Some 728), JNum (Some 90)]],
         params = [(''adUnitId'', JNum (Some 11))]\<rparr>)) ''sizes''
     = JArr [JArr [JNum (Some 300), JNum (Some 250)], JArr [JNum (Some 728), JNum (Some 90)]]"
  using sizes_normalized [of
      "\<lparr>bidId = JStr ''b1'',
         sizes = JArr [JArr [JNum (Some 300), JNum (Some 250)], JStr ''fluid'',
                       JArr [JNum (Some 728), JNum (Some 90)]],
         params = [(''adUnitId'', JNum (Some 11))]\<rparr>" example_ops NotAnObject]
  by simp

text \<open>
  The claim as stated fails when the malformed entry comes first: the list is then taken for
  a single pair and wrapped, and the malformed entry is not dropped.
\<close>

theorem sizes_first_entry_counterexample:
  "get_prop (snd (buildImp example_ops NotAnObject
        \<lparr>bidId = JStr ''b1'',
         sizes = JArr [JStr ''fluid'', JArr [JNum (Some 300), JNum (Some 250)]],
         params = [(''adUnitId'', JNum (Some 11))]\<rparr>)) ''sizes''
     = JArr [JArr [JStr ''fluid'', JArr [JNum (Some 300), JNum (Some 250)]]]
   \<and> get_prop (snd (buildImp example_ops NotAnObject
        \<lparr>bidId = JStr ''b1'',
         sizes = JArr [JStr ''fluid'', JArr [JNum (Some 300), JNum (Some 250)]],
         params = [(''adUnitId'', JNum (Some 11))]\<rparr>)) ''sizes''
     \<noteq> JArr [JArr [JNum (Some 300), JNum (Some 250)]]"
  by (simp add: buildImp_def Let_def)

text \<open>
  Claim C4, as amended. After \<open>buildRequests\<close> the caller's bid requests are the ones it
  passed with the \<open>sizes\<close> field of each replaced by its normalised list; \<open>bidId\<close>, \<open>params\<close>
  and all other fields are unchanged.
\<close>

theorem bid_requests_after_build:
  "fst (buildRequests ops w uid bids bidderRequest) =
     map (\<lambda>bid. bid\<lparr>sizes := JArr (filter isArray
                    (if isArray (sizes bid) \<and> isArray (first_elem (elems (sizes bid)))
                     then elems (sizes bid) else [sizes bid]))\<rparr>) bids
   \<and> map bidId (fst (buildRequests ops w uid bids bidderRequest)) = map bidId bids
   \<and> map params (fst (buildRequests ops w uid bids bidderRequest)) = map params bids
   \<and> map bid_request.more (fst (buildRequests ops w uid bids bidderRequest))
       = map bid_request.more bids"
  by (simp add: buildRequests_def buildImps_map buildImp_bid comp_def)

text \<open>A request whose sizes are already normalised comes back as it was.\<close>

theorem bid_requests_after_build_witness:
  "fst (buildRequests example_ops
     \<lparr>frame_depth = 0, location_href = ''https://pub.example/page'',
      location_protocol = ''https:'', location_hostname = ''pub.example'',
      location_ancestorOrigins = None, document_referrer = [], bidglass = NotAnObject\<rparr>
     ''r1''
     [\<lparr>bidId = JStr ''b1'', sizes = JArr [JArr [JNum (Some 300), JNum (Some 250)]],
       params = [(''adUnitId'', JNum (Some 11)), (''targeting'', JObj [(''k'', JStr ''v'')])]\<rparr>]
     JUndefined)
   = [\<lparr>bidId = JStr ''b1'', sizes = JArr [JArr [JNum (Some 300), JNum (Some 250)]],
       params = [(''adUnitId'', JNum (Some 11)), (''targeting'', JObj [(''k'', JStr ''v'')])]\<rparr>]"
  using bid_requests_after_build [of example_ops
     "\<lparr>frame_depth = 0, location_href = ''https://pub.example/page'',
      location_protocol = ''https:'', location_hostname = ''pub.example'',
      location_ancestorOrigins = None, document_referrer = [], bidglass = NotAnObject\<rparr>"
     "''r1''"
     "[\<lparr>bidId = JStr ''b1'', sizes = JArr [JArr [JNum (Some 300), JNum (Some 250)]],
       params = [(''adUnitId'', JNum (Some 11)), (''targeting'', JObj [(''k'', JStr ''v'')])]\<rparr>]"
     JUndefined]
  by simp

text \<open>
  The claim as stated fails: a request passed with the unwrapped pair \<open>[300, 250]\<close> has
  the sizes \<open>[[300, 250]]\<close> after the call.
\<close>

theorem sizes_mutation_counterexample:
  "fst (buildRequests example_ops
     \<lparr>frame_depth = 0, location_href = ''https://pub.example/page'',
      location_protocol = ''https:'', location_hostname = ''pub.example'',
      location_ancestorOrigins = None, document_referrer = [], bidglass = NotAnObject\<rparr>
     ''r1''
     [\<lparr>bidId = JStr ''b1'', sizes = JArr [JNum (Some 300), JNum (Some 250)],
       params = [(''adUnitId'', JNum (Some 11))]\<rparr>]
     JUndefined)
   = [\<lparr>bidId = JStr ''b1'', sizes = JArr [JArr [JNum (Some 300), JNum (Some 250)]],
       params = [(''adUnitId'', JNum (Some 11))]\<rparr>]
   \<and> fst (buildRequests example_ops
     \<lparr>frame_depth = 0, location_href = ''https://pub.example/page'',
      location_protocol = ''https:'', location_hostname = ''pub.example'',
      location_ancestorOrigins = None, document_referrer = [], bidglass = NotAnObject\<rparr>
     ''r1''
     [\<lparr>bidId = JStr ''b1'', sizes = JArr [JNum (Some 300), JNum (Some 250)],
       params = [(''adUnitId'', JNum (Some 11))]\<rparr>]
     JUndefined)
   \<noteq> [\<lparr>bidId = JStr ''b1'', sizes = JArr [JNum (Some 300), JNum (Some 250)],
       params = [(''adUnitId'', JNum (Some 11))]\<rparr>]"
  by (simp add: buildRequests_def buildImp_def Let_def)




section \<open>The first occurrence of the token\<close>

lemma find_first_Some:
  "find_first token s = Some (pre, post) \<Longrightarrow> s = pre @ token @ post"
proof (induction s arbitrary: pre)
  case Nil
  then show ?case by (simp split: if_splits)
next
  case (Cons c cs)
  show ?case
  proof (cases "prefix token (c # cs)")
    case True
    then obtain zs where zs: "c # cs = token @ zs" by (auto simp: prefix_def)
    from True Cons.prems have "pre = []" and "post = drop (length token) (c # cs)"
      by simp_all
    moreover have "drop (length token) (c # cs) = zs"
      unfolding zs by simp
    ultimately show ?thesis using zs by simp
  next
    case False
    with Cons.prems obtain pre' where "find_first token cs = Some (pre', post)" "pre = c # pre'"
      by (auto split: option.splits)
    with Cons.IH show ?thesis by simp
  qed
qed

lemma find_first_earliest:
  "find_first token s = Some (pre, post) \<Longrightarrow> j < length pre \<Longrightarrow> \<not> prefix token (drop j s)"
proof (induction s arbitrary: pre j)
  case Nil
  then show ?case by (simp split: if_splits)
next
  case (Cons c cs)
  show ?case
  proof (cases "prefix token (c # cs)")
    case True
    with Cons.prems show ?thesis by simp
  next
    case False
    with Cons.prems obtain pre' where p: "find_first token cs = Some (pre', post)" "pre = c # pre'"
      by (auto split: option.splits)
    show ?thesis
    proof (cases j)
      case 0
      with False show ?thesis by simp
    next
      case (Suc j')
      with Cons.prems(2) p(2) have "j' < length pre'" by simp
      from Cons.IH [OF p(1) this] Suc show ?thesis by simp
    qed
  qed
qed

lemma find_first_at:
  "(\<forall>j<length pre. \<not> prefix token (drop j (pre @ token @ post))) \<Longrightarrow>
   find_first token (pre @ token @ post) = Some (pre, post)"
proof (induction pre)
  case Nil
  show ?case
  proof (cases "token @ post")
    case Nil
    then show ?thesis by simp
  next
    case (Cons a list)
    have "prefix token (token @ post)" by simp
    then have "prefix token (a # list)" unfolding Cons .
    moreover have "drop (length token) (token @ post) = post" by simp
    then have "drop (length token) (a # list) = post" unfolding Cons .
    ultimately show ?thesis using Cons by simp
  qed
next
  case (Cons c pre)
  from Cons.prems have "\<not> prefix token (drop 0 ((c # pre) @ token @ post))"
    by blast
  then have np: "\<not> prefix token (c # pre @ token @ post)" by simp
  have "\<forall>j<length pre. \<not> prefix token (drop j (pre @ token @ post))"
  proof (intro allI impI)
    fix j assume "j < length pre"
    then have "Suc j < length (c # pre)" by simp
    with Cons.prems have "\<not> prefix token (drop (Suc j) ((c # pre) @ token @ post))"
      by blast
    then show "\<not> prefix token (drop j (pre @ token @ post))" by simp
  qed
  from Cons.IH [OF this] np show ?case by simp
qed

lemma find_first_sublist:
  "sublist token s \<Longrightarrow> \<exists>pre post. find_first token s = Some (pre, post)"
proof (induction s)
  case Nil
  then show ?case by simp
next
  case (Cons c cs)
  show ?case
  proof (cases "prefix token (c # cs)")
    case True
    then show ?thesis by simp
  next
    case False
    with Cons.prems have "sublist token cs"
      by (simp add: sublist_Cons_right)
    from Cons.IH [OF this] False show ?thesis by auto
  qed
qed

section \<open>The bids of a response\<close>

lemma interpretBids_nth:
  "interpretBids ops origReq bids = Inr results \<Longrightarrow>
   length results = length bids
   \<and> (\<forall>i<length bids. interpretBid ops origReq (bids ! i) = Inr (results ! i))"
proof (induction bids arbitrary: results)
  case Nil
  then show ?case by simp
next
  case (Cons b bids)
  from Cons.prems obtain r rs where r: "interpretBid ops origReq b = Inr r"
    and rs: "interpretBids ops origReq bids = Inr rs" and res: "results = r # rs"
    by (auto split: sum.splits)
  from Cons.IH [OF rs] r res show ?case
    by (auto simp: nth_Cons split: nat.splits)
qed

lemma interpretBids_all:
  "(\<forall>b\<in>set bids. \<exists>r. interpretBid ops origReq b = Inr r) \<Longrightarrow>
   \<exists>results. interpretBids ops origReq bids = Inr results"
  by (induction bids) auto

lemma interpretBid_Inr:
  assumes "interpretBid ops origReq serverBid = Inr bidResponse"
  shows "\<exists>markup ad. get_prop serverBid ''ad'' = JStr markup
     \<and> replaceToken ops origReq markup = Inr ad
     \<and> bidResponse = JObj
         [(''requestId'', get_prop serverBid ''requestId''),
          (''cpm'', JNum (parse_float ops (to_string ops (get_prop serverBid ''cpm'')))),
          (''width'', JNum (parse_int10 ops (to_string ops (get_prop serverBid ''width'')))),
          (''height'', JNum (parse_int10 ops (to_string ops (get_prop serverBid ''height'')))),
          (''creativeId'', get_prop serverBid ''creativeId''),
          (''dealId'', js_or ops (get_prop serverBid ''dealId'') JNull),
          (''currency'', js_or ops (get_prop serverBid ''currency'') (JStr ''USD'')),
          (''mediaType'', js_or ops (get_prop serverBid ''mediaType'') (JStr ''banner'')),
          (''netRevenue'', JBool True),
          (''ttl'', js_or ops (get_prop serverBid ''ttl'') (JNum (number ops 10))),
          (''ad'', JStr ad),
          (''meta'', bidMeta ops serverBid)]"
  using assms unfolding interpretBid_def
  by (auto split: if_splits jsval.splits sum.splits)

lemma interpretBid_ok:
  assumes "\<not> nullish serverBid"
    and "stringifiable (get_prop serverBid ''cpm'')"
    and "stringifiable (get_prop serverBid ''width'')"
    and "stringifiable (get_prop serverBid ''height'')"
    and "get_prop serverBid ''ad'' = JStr markup"
    and "replaceToken ops origReq markup = Inr ad"
  shows "\<exists>r. interpretBid ops origReq serverBid = Inr r"
  using assms unfolding interpretBid_def by simp

lemma interpretResponse_nth:
  assumes "interpretResponse ops serverResponse serverRequest = Inr results"
    and "json_parse ops (data serverRequest) = Some origReq"
    and "i < length (bidResponses serverResponse)"
  shows "interpretBid ops origReq (bidResponses serverResponse ! i) = Inr (results ! i)"
  using assms interpretBids_nth [of ops origReq "bidResponses serverResponse" results]
  by (simp add: interpretResponse_def)

lemma replaceToken_found:
  assumes "replaceToken ops origReq markup = Inr ad"
    and "find_first ''&replaceme'' markup = Some (pre, post)"
  shows "\<not> nullish origReq
     \<and> ad = pre @
         (if join ''&'' (map (\<lambda>key. key @ ''='' @
                 encodeURIComponent (to_string ops (get_prop origReq key)))
               (filter (\<lambda>key. \<not> nullish (get_prop origReq key)) consentKeys)) \<noteq> []
          then ''&'' @ join ''&'' (map (\<lambda>key. key @ ''='' @
                 encodeURIComponent (to_string ops (get_prop origReq key)))
               (filter (\<lambda>key. \<not> nullish (get_prop origReq key)) consentKeys))
          else []) @ post"
  using assms unfolding replaceToken_def replacement_def urlEncodedExtras_def Let_def
  by (auto split: sum.splits if_splits)

section \<open>The placeholder of the creative\<close>

text \<open>
  Every payload that \<open>buildRequests\<close> makes has the four consent keys, none of them
  \<open>null\<close> or \<open>undefined\<close>: a field without a value is the empty string. The test
  \<open>origReq[key] != null\<close> of \<open>interpretResponse\<close> therefore skips no key of such a payload.
\<close>

lemma js_or_JStr_not_nullish: "\<not> nullish (js_or ops v (JStr s))"
  by (cases v) (simp_all add: js_or_def)

lemma payload_keys_present:
  assumes "bidReq ops w uid imps bidderRequest = Inr payload"
    and "key \<in> set consentKeys"
  shows "\<not> nullish (get_prop payload key)"
proof -
  from bidReq_Inr [OF assms(1)] obtain sid where
    sid: "gppSid ops bidderRequest = Inr sid"
    and p: "payload = JObj [(''reqId'', JStr uid),
                     (''imps'', JArr imps),
                     (''ref'', getReferer w),
                     (''ori'', JArr (map JStr (getOrigins w))),
                     (''gdprApplies'', gdprApplies ops bidderRequest),
                     (''gdprConsent'', gdprConsent ops bidderRequest),
                     (''gppString'', gppString ops bidderRequest),
                     (''gppSid'', sid)]"
    by blast
  have a: "\<not> nullish (gdprApplies ops bidderRequest)"
    by (simp add: gdprApplies_def)
  have c: "\<not> nullish (gdprConsent ops bidderRequest)"
    unfolding gdprConsent_def by (rule js_or_JStr_not_nullish)
  have g: "\<not> nullish (gppString ops bidderRequest)"
    unfolding gppString_def by (rule js_or_JStr_not_nullish)
  from sid have s: "\<not> nullish sid"
    unfolding gppSid_def using js_or_JStr_not_nullish [of ops _ "[]"]
    by (auto split: if_splits)
  from assms(2) a c g s show ?thesis
    unfolding p consentKeys_def by auto
qed

text \<open>
  Claim C1. For a request payload in which only \<open>gdprConsent\<close> has a value
  (\<open>CONSENT123\<close>), the token \<open>&replaceme\<close> is to become exactly \<open>&gdprConsent=CONSENT123\<close>,
  with no other key. The code does not do so on its own payload: \<open>buildRequests\<close>, given
  the consent string \<open>CONSENT123\<close> and nothing else, makes a payload whose other three
  fields are empty strings, and \<open>interpretResponse\<close>, given that request, writes all four
  keys into the creative.
\<close>

theorem placeholder_keeps_empty_fields:
  "snd (buildRequests example_ops
       \<lparr>frame_depth = 0, location_href = ''https://pub.example/page'',
        location_protocol = ''https:'', location_hostname = ''pub.example'',
        location_ancestorOrigins = None, document_referrer = [], bidglass = NotAnObject\<rparr>
       ''r1''
       [\<lparr>bidId = JStr ''b1'', sizes = JArr [JArr [JNum (Some 300), JNum (Some 250)]],
         params = [(''adUnitId'', JNum (Some 11))]\<rparr>]
       (JObj [(''gdprConsent'', JObj [(''consentString'', JStr ''CONSENT123'')])]))
   = Inr \<lparr>http_method = ''POST'',
       url = ''https://bid.glass/ad/hb.php?src=$$REPO_AND_VERSION$$'',
       data = JObj [(''reqId'', JStr ''r1''),
                   (''imps'', JArr [JObj [(''bidId'', JStr ''b1''),
                                          (''sizes'', JArr [JArr [JNum (Some 300), JNum (Some 250)]]),
                                          (''adUnitId'', JNum (Some 11)),
                                          (''options'', JObj [])]]),
                   (''ref'', JStr ''https://pub.example/page''),
                   (''ori'', JArr [JStr ''https://pub.example'']),
                   (''gdprApplies'', JStr []),
                   (''gdprConsent'', JStr ''CONSENT123''),
                   (''gppString'', JStr []),
                   (''gppSid'', JStr [])],
       contentType = ''text/plain'', withCredentials = False\<rparr>
   \<and> interpretResponse example_ops
     \<lparr>bidResponses = [JObj [(''requestId'', JStr ''b1''), (''cpm'', JStr ''2''), (''width'', JStr ''300''),
             (''height'', JStr ''250''), (''creativeId'', JStr ''c7''),
             (''ad'', JStr ''<script src=//bid.glass/unit/11.js?a=1&replaceme></script>'')]]\<rparr>
     \<lparr>http_method = ''POST'',
       url = ''https://bid.glass/ad/hb.php?src=$$REPO_AND_VERSION$$'',
       data = JObj [(''reqId'', JStr ''r1''),
                   (''imps'', JArr [JObj [(''bidId'', JStr ''b1''),
                                          (''sizes'', JArr [JArr [JNum (Some 300), JNum (Some 250)]]),
                                          (''adUnitId'', JNum (Some 11)),
                                          (''options'', JObj [])]]),
                   (''ref'', JStr ''https://pub.example/page''),
                   (''ori'', JArr [JStr ''https://pub.example'']),
                   (''gdprApplies'', JStr []),
                   (''gdprConsent'', JStr ''CONSENT123''),
                   (''gppString'', JStr []),
                   (''gppSid'', JStr [])],
       contentType = ''text/plain'', withCredentials = False\<rparr>
   = Inr [JObj [(''requestId'', JStr ''b1''), (''cpm'', JNum (Some 2)), (''width'', JNum (Some 300)),
             (''height'', JNum (Some 250)), (''creativeId'', JStr ''c7''), (''dealId'', JNull),
             (''currency'', JStr ''USD''), (''mediaType'', JStr ''banner''),
             (''netRevenue'', JBool True), (''ttl'', JNum (Some 10)),
             (''ad'', JStr ''<script src=//bid.glass/unit/11.js?a=1&gdprApplies=&gdprConsent=CONSENT123&gppString=&gppSid=></script>''),
             (''meta'', JObj [])]]
   \<and> interpretResponse example_ops
     \<lparr>bidResponses = [JObj [(''requestId'', JStr ''b1''), (''cpm'', JStr ''2''), (''width'', JStr ''300''),
             (''height'', JStr ''250''), (''creativeId'', JStr ''c7''),
             (''ad'', JStr ''<script src=//bid.glass/unit/11.js?a=1&replaceme></script>'')]]\<rparr>
     \<lparr>http_method = ''POST'',
       url = ''https://bid.glass/ad/hb.php?src=$$REPO_AND_VERSION$$'',
       data = JObj [(''reqId'', JStr ''r1''),
                   (''imps'', JArr [JObj [(''bidId'', JStr ''b1''),
                                          (''sizes'', JArr [JArr [JNum (Some 300), JNum (Some 250)]]),
                                          (''adUnitId'', JNum (Some 11)),
                                          (''options'', JObj [])]]),
                   (''ref'', JStr ''https://pub.example/page''),
                   (''ori'', JArr [JStr ''https://pub.example'']),
                   (''gdprApplies'', JStr []),
                   (''gdprConsent'', JStr ''CONSENT123''),
                   (''gppString'', JStr []),
                   (''gppSid'', JStr [])],
       contentType = ''text/plain'', withCredentials = False\<rparr>
   \<noteq> Inr [JObj [(''requestId'', JStr ''b1''), (''cpm'', JNum (Some 2)), (''width'', JNum (Some 300)),
             (''height'', JNum (Some 250)), (''creativeId'', JStr ''c7''), (''dealId'', JNull),
             (''currency'', JStr ''USD''), (''mediaType'', JStr ''banner''),
             (''netRevenue'', JBool True), (''ttl'', JNum (Some 10)),
             (''ad'', JStr ''<script src=//bid.glass/unit/11.js?a=1&gdprConsent=CONSENT123></script>''),
             (''meta'', JObj [])]]"
proof -
  have b: "snd (buildRequests example_ops
       \<lparr>frame_depth = 0, location_href = ''https://pub.example/page'',
        location_protocol = ''https:'', location_hostname = ''pub.example'',
        location_ancestorOrigins = None, document_referrer = [], bidglass = NotAnObject\<rparr>
       ''r1''
       [\<lparr>bidId = JStr ''b1'', sizes = JArr [JArr [JNum (Some 300), JNum (Some 250)]],
         params = [(''adUnitId'', JNum (Some 11))]\<rparr>]
       (JObj [(''gdprConsent'', JObj [(''consentString'', JStr ''CONSENT123'')])]))
   = Inr \<lparr>http_method = ''POST'',
       url = ''https://bid.glass/ad/hb.php?src=$$REPO_AND_VERSION$$'',
       data = JObj [(''reqId'', JStr ''r1''),
                   (''imps'', JArr [JObj [(''bidId'', JStr ''b1''),
                                          (''sizes'', JArr [JArr [JNum (Some 300), JNum (Some 250)]]),
                                          (''adUnitId'', JNum (Some 11)),
                                          (''options'', JObj [])]]),
                   (''ref'', JStr ''https://pub.example/page''),
                   (''ori'', JArr [JStr ''https://pub.example'']),
                   (''gdprApplies'', JStr []),
                   (''gdprConsent'', JStr ''CONSENT123''),
                   (''gppString'', JStr []),
                   (''gppSid'', JStr [])],
       contentType = ''text/plain'', withCredentials = False\<rparr>"
    by (simp add: buildRequests_def buildImp_def Let_def getBidIdParameter_def deepClone_def
        delete_prop_def bidReq_def gppSid_def gppApplicableSections_def gppConsentObj_def
        ortb2Gpp_def ortb2Regs_def gdprApplies_def gdprConsent_def gdprConsentObj_def
        gppString_def js_and_def js_or_def getReferer_def getOrigins_def window_is_top_def
        parent_is_top_def part_str_def example_ops_def)
  have i: "interpretResponse example_ops
     \<lparr>bidResponses = [JObj [(''requestId'', JStr ''b1''), (''cpm'', JStr ''2''), (''width'', JStr ''300''),
             (''height'', JStr ''250''), (''creativeId'', JStr ''c7''),
             (''ad'', JStr ''<script src=//bid.glass/unit/11.js?a=1&replaceme></script>'')]]\<rparr>
     \<lparr>http_method = ''POST'',
       url = ''https://bid.glass/ad/hb.php?src=$$REPO_AND_VERSION$$'',
       data = JObj [(''reqId'', JStr ''r1''),
                   (''imps'', JArr [JObj [(''bidId'', JStr ''b1''),
                                          (''sizes'', JArr [JArr [JNum (Some 300), JNum (Some 250)]]),
                                          (''adUnitId'', JNum (Some 11)),
                                          (''options'', JObj [])]]),
                   (''ref'', JStr ''https://pub.example/page''),
                   (''ori'', JArr [JStr ''https://pub.example'']),
                   (''gdprApplies'', JStr []),
                   (''gdprConsent'', JStr ''CONSENT123''),
                   (''gppString'', JStr []),
                   (''gppSid'', JStr [])],
       contentType = ''text/plain'', withCredentials = False\<rparr>
   = Inr [JObj [(''requestId'', JStr ''b1''), (''cpm'', JNum (Some 2)), (''width'', JNum (Some 300)),
             (''height'', JNum (Some 250)), (''creativeId'', JStr ''c7''), (''dealId'', JNull),
             (''currency'', JStr ''USD''), (''mediaType'', JStr ''banner''),
             (''netRevenue'', JBool True), (''ttl'', JNum (Some 10)),
             (''ad'', JStr ''<script src=//bid.glass/unit/11.js?a=1&gdprApplies=&gdprConsent=CONSENT123&gppString=&gppSid=></script>''),
             (''meta'', JObj [])]]"
    by (simp add: interpretResponse_def interpretBid_def replaceToken_def replacement_def
        urlEncodedExtras_def consentKeys_def Let_def bidMeta_def js_or_def example_ops_def
        read_int_def read_nat_def is_digit_def digit_val_def encodeURIComponent_def
        unreserved_def pct_encode_def hex_digit_def)
  from b i show ?thesis by simp
qed

text \<open>
  Without any consent data the token is not removed either: each of the four keys is
  written with an empty value.
\<close>

lemma token_kept_without_consent:
  "replaceToken example_ops
     (JObj [(''reqId'', JStr ''r1''), (''imps'', JArr []),
            (''ref'', JStr ''https://pub.example/page''),
            (''ori'', JArr [JStr ''https://pub.example'']),
            (''gdprApplies'', JStr []), (''gdprConsent'', JStr []),
            (''gppString'', JStr []), (''gppSid'', JStr [])])
     ''<script src=//bid.glass/unit/11.js?a=1&replaceme></script>''
   = Inr ''<script src=//bid.glass/unit/11.js?a=1&gdprApplies=&gdprConsent=&gppString=&gppSid=></script>''"
  by (simp add: replaceToken_def replacement_def urlEncodedExtras_def consentKeys_def Let_def
      encodeURIComponent_def)

text \<open>The token at a position before which it does not occur.\<close>

lemma replaceToken_at:
  assumes "replaceToken ops origReq (pre @ ''&replaceme'' @ post) = Inr ad"
    and "\<forall>j<length pre. \<not> prefix ''&replaceme'' (drop j (pre @ ''&replaceme'' @ post))"
  shows "\<exists>rep. replacement ops origReq = Inr rep \<and> ad = pre @ rep @ post"
proof -
  from find_first_at [OF assms(2)]
  have "find_first ''&replaceme'' (pre @ ''&replaceme'' @ post) = Some (pre, post)" .
  with assms(1) show ?thesis
    unfolding replaceToken_def by (auto split: sum.splits)
qed

text \<open>
  Claim C10. Only the first occurrence of \<open>&replaceme\<close> is substituted: when the markup
  is \<open>pre\<close>, the token, \<open>post\<close>, and the token does not start anywhere in front of that
  occurrence, the \<open>ad\<close> of the result is \<open>pre\<close>, the replacement, \<open>post\<close>, whatever further
  occurrences of the token \<open>post\<close> has.
\<close>

theorem first_occurrence_only:
  assumes "interpretResponse ops serverResponse serverRequest = Inr results"
    and "json_parse ops (data serverRequest) = Some origReq"
    and "i < length (bidResponses serverResponse)"
    and "get_prop (bidResponses serverResponse ! i) ''ad'' = JStr (pre @ ''&replaceme'' @ post)"
    and "\<forall>j<length pre. \<not> prefix ''&replaceme'' (drop j (pre @ ''&replaceme'' @ post))"
  shows "\<exists>rep. replacement ops origReq = Inr rep
           \<and> get_prop (results ! i) ''ad'' = JStr (pre @ rep @ post)"
proof -
  from interpretResponse_nth [OF assms(1-3)]
  have "interpretBid ops origReq (bidResponses serverResponse ! i) = Inr (results ! i)" .
  from interpretBid_Inr [OF this] assms(4)
  obtain ad where ad: "replaceToken ops origReq (pre @ ''&replaceme'' @ post) = Inr ad"
    and r: "get_prop (results ! i) ''ad'' = JStr ad"
    by auto
  from replaceToken_at [OF ad assms(5)] r show ?thesis by auto
qed


text \<open>A markup with the token twice.\<close>

theorem first_occurrence_only_witness:
  "interpretResponse example_ops
     \<lparr>bidResponses = [JObj [(''requestId'', JStr ''b1''), (''cpm'', JStr ''2''), (''width'', JStr ''300''),
             (''height'', JStr ''250''), (''creativeId'', JStr ''c7''),
             (''ad'', JStr ''<a href=/c?x=1&replaceme>&replaceme</a>'')]]\<rparr>
     \<lparr>http_method = ''POST'', url = ''https://bid.glass/ad/hb.php?src=$$REPO_AND_VERSION$$'',
      data = JObj [(''reqId'', JStr ''r1''), (''gdprConsent'', JStr ''CONSENT123'')],
      contentType = ''text/plain'', withCredentials = False\<rparr>
   = Inr [JObj [(''requestId'', JStr ''b1''), (''cpm'', JNum (Some 2)), (''width'', JNum (Some 300)),
             (''height'', JNum (Some 250)), (''creativeId'', JStr ''c7''), (''dealId'', JNull),
             (''currency'', JStr ''USD''), (''mediaType'', JStr ''banner''),
             (''netRevenue'', JBool True), (''ttl'', JNum (Some 10)),
             (''ad'', JStr ''<a href=/c?x=1&gdprConsent=CONSENT123>&replaceme</a>''),
             (''meta'', JObj [])]]
   \<and> get_prop (JObj [(''requestId'', JStr ''b1''), (''cpm'', JNum (Some 2)), (''width'', JNum (Some 300)),
             (''height'', JNum (Some 250)), (''creativeId'', JStr ''c7''), (''dealId'', JNull),
             (''currency'', JStr ''USD''), (''mediaType'', JStr ''banner''),
             (''netRevenue'', JBool True), (''ttl'', JNum (Some 10)),
             (''ad'', JStr ''<a href=/c?x=1&gdprConsent=CONSENT123>&replaceme</a>''),
             (''meta'', JObj [])]) ''ad''
     = JStr (''<a href=/c?x=1'' @ ''&gdprConsent=CONSENT123'' @ ''>&replaceme</a>'')"
proof -
  let ?resp = "\<lparr>bidResponses = [JObj [(''requestId'', JStr ''b1''), (''cpm'', JStr ''2''), (''width'', JStr ''300''),
             (''height'', JStr ''250''), (''creativeId'', JStr ''c7''),
             (''ad'', JStr ''<a href=/c?x=1&replaceme>&replaceme</a>'')]]\<rparr> :: int option server_response"
  let ?req = "\<lparr>http_method = ''POST'', url = ''https://bid.glass/ad/hb.php?src=$$REPO_AND_VERSION$$'',
      data = JObj [(''reqId'', JStr ''r1''), (''gdprConsent'', JStr ''CONSENT123'')],
      contentType = ''text/plain'', withCredentials = False\<rparr> :: int option jsval server_request"
  let ?res = "JObj [(''requestId'', JStr ''b1''), (''cpm'', JNum (Some 2)), (''width'', JNum (Some 300)),
             (''height'', JNum (Some 250)), (''creativeId'', JStr ''c7''), (''dealId'', JNull),
             (''currency'', JStr ''USD''), (''mediaType'', JStr ''banner''),
             (''netRevenue'', JBool True), (''ttl'', JNum (Some 10)),
             (''ad'', JStr ''<a href=/c?x=1&gdprConsent=CONSENT123>&replaceme</a>''),
             (''meta'', JObj [])] :: int option jsval"
  let ?pre = "''<a href=/c?x=1''"
  let ?post = "''>&replaceme</a>''"
  have h1: "interpretResponse example_ops ?resp ?req = Inr [?res]"
    by (simp add: interpretResponse_def interpretBid_def replaceToken_def replacement_def
        urlEncodedExtras_def consentKeys_def Let_def bidMeta_def js_or_def example_ops_def
        read_int_def read_nat_def is_digit_def digit_val_def encodeURIComponent_def
        unreserved_def pct_encode_def hex_digit_def)
  have h2: "json_parse example_ops (data ?req) = Some (JObj [(''reqId'', JStr ''r1''), (''gdprConsent'', JStr ''CONSENT123'')])"
    by (simp add: example_ops_def)
  have h3: "0 < length (bidResponses ?resp)" by simp
  have h4: "get_prop (bidResponses ?resp ! 0) ''ad'' = JStr (?pre @ ''&replaceme'' @ ?post)"
    by simp
  have f: "find_first ''&replaceme'' (?pre @ ''&replaceme'' @ ?post) = Some (?pre, ?post)"
    by simp
  have h5: "\<forall>j<length ?pre. \<not> prefix ''&replaceme'' (drop j (?pre @ ''&replaceme'' @ ?post))"
    using find_first_earliest [OF f] by blast
  have rep: "replacement example_ops (JObj [(''reqId'', JStr ''r1''), (''gdprConsent'', JStr ''CONSENT123'')]) = Inr ''&gdprConsent=CONSENT123''"
    by (simp add: replacement_def urlEncodedExtras_def consentKeys_def Let_def
        encodeURIComponent_def unreserved_def)
  from first_occurrence_only [OF h1 h2 h3 h4 h5] rep
  have "get_prop ([?res] ! 0) ''ad'' = JStr (?pre @ ''&gdprConsent=CONSENT123'' @ ?post)"
    by auto
  with h1 show ?thesis by simp
qed

section \<open>The fields of a bid response\<close>

text \<open>When the substitution does not throw.\<close>

lemma replaceToken_ok:
  assumes "sublist ''&replaceme'' markup \<longrightarrow>
             \<not> nullish origReq \<and> (\<forall>key\<in>set consentKeys. stringifiable (get_prop origReq key))"
  shows "\<exists>ad. replaceToken ops origReq markup = Inr ad"
proof (cases "find_first ''&replaceme'' markup")
  case None
  then show ?thesis by (simp add: replaceToken_def)
next
  case (Some pp)
  obtain pre post where pp: "pp = (pre, post)" by (cases pp)
  from Some pp have "markup = pre @ ''&replaceme'' @ post"
    using find_first_Some by blast
  then have "sublist ''&replaceme'' markup"
    using sublist_appendI by blast
  with assms have n: "\<not> nullish origReq"
    and s: "\<forall>key\<in>set consentKeys. stringifiable (get_prop origReq key)"
    by blast+
  from s have "list_all (\<lambda>key. stringifiable (get_prop origReq key))
                 (filter (\<lambda>key. \<not> nullish (get_prop origReq key)) consentKeys)"
    by (simp add: list_all_iff)
  with n have "\<exists>x. urlEncodedExtras ops origReq = Inr x"
    by (simp add: urlEncodedExtras_def Let_def)
  then have "\<exists>x. replacement ops origReq = Inr x"
    by (auto simp: replacement_def)
  with Some pp show ?thesis
    by (auto simp: replaceToken_def)
qed

lemma bidMeta_copied:
  assumes "get_prop (get_prop serverBid ''meta'') ''advertiserDomains'' = JArr ds"
    and "ds \<noteq> []"
  shows "bidMeta ops serverBid = JObj [(''advertiserDomains'', JArr ds)]"
proof -
  from assms(1) obtain kvs where "get_prop serverBid ''meta'' = JObj kvs"
    by (cases "get_prop serverBid ''meta''") simp_all
  with assms show ?thesis by (simp add: bidMeta_def del: get_prop.simps)
qed

lemma bidMeta_empty:
  assumes "get_prop (get_prop serverBid ''meta'') ''advertiserDomains'' \<in> {JUndefined, JArr []}"
  shows "bidMeta ops serverBid = JObj []"
  using assms by (auto simp: bidMeta_def simp del: get_prop.simps)

lemma interpretBid_fields:
  assumes "interpretBid ops origReq e = Inr r"
  shows "get_prop r ''netRevenue'' = JBool True
     \<and> get_prop r ''cpm'' = JNum (parse_float ops (to_string ops (get_prop e ''cpm'')))
     \<and> get_prop r ''width'' = JNum (parse_int10 ops (to_string ops (get_prop e ''width'')))
     \<and> get_prop r ''height'' = JNum (parse_int10 ops (to_string ops (get_prop e ''height'')))
     \<and> get_prop r ''requestId'' = get_prop e ''requestId''
     \<and> get_prop r ''dealId'' = js_or ops (get_prop e ''dealId'') JNull
     \<and> get_prop r ''currency'' = js_or ops (get_prop e ''currency'') (JStr ''USD'')
     \<and> get_prop r ''mediaType'' = js_or ops (get_prop e ''mediaType'') (JStr ''banner'')
     \<and> get_prop r ''ttl'' = js_or ops (get_prop e ''ttl'') (JNum (number ops 10))
     \<and> get_prop r ''meta'' = bidMeta ops e"
proof -
  from interpretBid_Inr [OF assms] obtain ad where
    "r = JObj
         [(''requestId'', get_prop e ''requestId''),
          (''cpm'', JNum (parse_float ops (to_string ops (get_prop e ''cpm'')))),
          (''width'', JNum (parse_int10 ops (to_string ops (get_prop e ''width'')))),
          (''height'', JNum (parse_int10 ops (to_string ops (get_prop e ''height'')))),
          (''creativeId'', get_prop e ''creativeId''),
          (''dealId'', js_or ops (get_prop e ''dealId'') JNull),
          (''currency'', js_or ops (get_prop e ''currency'') (JStr ''USD'')),
          (''mediaType'', js_or ops (get_prop e ''mediaType'') (JStr ''banner'')),
          (''netRevenue'', JBool True),
          (''ttl'', js_or ops (get_prop e ''ttl'') (JNum (number ops 10))),
          (''ad'', JStr ad),
          (''meta'', bidMeta ops e)]"
    by blast
  then show ?thesis by simp
qed

lemma js_or_undefined: "js_or ops JUndefined v = v"
  by (simp add: js_or_def)

text \<open>
  Claim C8. Whatever the optional fields \<open>dealId\<close>, \<open>currency\<close>, \<open>mediaType\<close>, \<open>ttl\<close> and
  \<open>meta\<close> of the server's bids are, present or not, \<open>interpretResponse\<close> raises nothing and
  returns one result for each bid (the hypotheses are about the entry itself, its \<open>cpm\<close>,
  \<open>width\<close>, \<open>height\<close> and \<open>ad\<close>, and the values substituted for the token only). In each
  result \<open>netRevenue\<close> is \<open>true\<close>, \<open>cpm\<close> is the number \<open>parseFloat\<close> reads, \<open>width\<close> and
  \<open>height\<close> are the numbers \<open>parseInt\<close> reads in base 10; an absent \<open>dealId\<close> gives \<open>null\<close>,
  an absent \<open>currency\<close> gives \<open>USD\<close>, an absent \<open>mediaType\<close> gives \<open>banner\<close>, an absent \<open>ttl\<close>
  gives 10; \<open>meta\<close> holds the advertiser domains when the bid has a non-empty list of
  them, and is empty when the list is absent or empty.
\<close>

theorem optional_fields_defaulted:
  assumes "json_parse ops (data serverRequest) = Some origReq"
    and "\<forall>e\<in>set (bidResponses serverResponse).
           \<not> nullish e
           \<and> stringifiable (get_prop e ''cpm'')
           \<and> stringifiable (get_prop e ''width'')
           \<and> stringifiable (get_prop e ''height'')
           \<and> (\<exists>markup. get_prop e ''ad'' = JStr markup
                \<and> (sublist ''&replaceme'' markup \<longrightarrow>
                      \<not> nullish origReq
                      \<and> (\<forall>key\<in>set consentKeys. stringifiable (get_prop origReq key))))"
  shows "\<exists>results. interpretResponse ops serverResponse serverRequest = Inr results
     \<and> length results = length (bidResponses serverResponse)
     \<and> (\<forall>i<length results.
          get_prop (results ! i) ''netRevenue'' = JBool True
        \<and> get_prop (results ! i) ''cpm'' =
            JNum (parse_float ops (to_string ops (get_prop (bidResponses serverResponse ! i) ''cpm'')))
        \<and> get_prop (results ! i) ''width'' =
            JNum (parse_int10 ops
                    (to_string ops (get_prop (bidResponses serverResponse ! i) ''width'')))
        \<and> get_prop (results ! i) ''height'' =
            JNum (parse_int10 ops
                    (to_string ops (get_prop (bidResponses serverResponse ! i) ''height'')))
        \<and> (get_prop (bidResponses serverResponse ! i) ''dealId'' = JUndefined
             \<longrightarrow> get_prop (results ! i) ''dealId'' = JNull)
        \<and> (get_prop (bidResponses serverResponse ! i) ''currency'' = JUndefined
             \<longrightarrow> get_prop (results ! i) ''currency'' = JStr ''USD'')
        \<and> (get_prop (bidResponses serverResponse ! i) ''mediaType'' = JUndefined
             \<longrightarrow> get_prop (results ! i) ''mediaType'' = JStr ''banner'')
        \<and> (get_prop (bidResponses serverResponse ! i) ''ttl'' = JUndefined
             \<longrightarrow> get_prop (results ! i) ''ttl'' = JNum (number ops 10))
        \<and> (\<forall>ds. get_prop (get_prop (bidResponses serverResponse ! i) ''meta'')
                   ''advertiserDomains'' = JArr ds \<and> ds \<noteq> []
             \<longrightarrow> get_prop (results ! i) ''meta'' = JObj [(''advertiserDomains'', JArr ds)])
        \<and> (get_prop (get_prop (bidResponses serverResponse ! i) ''meta'') ''advertiserDomains''
               \<in> {JUndefined, JArr []}
             \<longrightarrow> get_prop (results ! i) ''meta'' = JObj []))"
proof -
  let ?bids = "bidResponses serverResponse"
  have "\<forall>e\<in>set ?bids. \<exists>r. interpretBid ops origReq e = Inr r"
  proof
    fix e assume "e \<in> set ?bids"
    with assms(2) obtain markup where e: "\<not> nullish e" "stringifiable (get_prop e ''cpm'')"
      "stringifiable (get_prop e ''width'')" "stringifiable (get_prop e ''height'')"
      "get_prop e ''ad'' = JStr markup"
      and m: "sublist ''&replaceme'' markup \<longrightarrow>
                \<not> nullish origReq
                \<and> (\<forall>key\<in>set consentKeys. stringifiable (get_prop origReq key))"
      by blast
    from replaceToken_ok [OF m] obtain ad where "replaceToken ops origReq markup = Inr ad"
      by blast
    with e show "\<exists>r. interpretBid ops origReq e = Inr r"
      using interpretBid_ok by blast
  qed
  from interpretBids_all [OF this] obtain results
    where res: "interpretBids ops origReq ?bids = Inr results"
    by blast
  then have ir: "interpretResponse ops serverResponse serverRequest = Inr results"
    using assms(1) by (simp add: interpretResponse_def)
  from interpretBids_nth [OF res]
  have len: "length results = length ?bids"
    and nth: "\<forall>i<length ?bids. interpretBid ops origReq (?bids ! i) = Inr (results ! i)"
    by blast+
  show ?thesis
  proof (intro exI [of _ results] conjI allI impI)
    show "interpretResponse ops serverResponse serverRequest = Inr results" by (rule ir)
    show "length results = length ?bids" by (rule len)
  next
    fix i assume "i < length results"
    with len nth have "interpretBid ops origReq (?bids ! i) = Inr (results ! i)" by simp
    note f = interpretBid_fields [OF this]
    show "get_prop (results ! i) ''netRevenue'' = JBool True" using f by blast
    show "get_prop (results ! i) ''cpm'' =
            JNum (parse_float ops (to_string ops (get_prop (?bids ! i) ''cpm'')))"
      using f by blast
    show "get_prop (results ! i) ''width'' =
            JNum (parse_int10 ops (to_string ops (get_prop (?bids ! i) ''width'')))"
      using f by blast
    show "get_prop (results ! i) ''height'' =
            JNum (parse_int10 ops (to_string ops (get_prop (?bids ! i) ''height'')))"
      using f by blast
    { assume "get_prop (?bids ! i) ''dealId'' = JUndefined"
      then show "get_prop (results ! i) ''dealId'' = JNull"
        using f by (simp add: js_or_undefined) }
    { assume "get_prop (?bids ! i) ''currency'' = JUndefined"
      then show "get_prop (results ! i) ''currency'' = JStr ''USD''"
        using f by (simp add: js_or_undefined) }
    { assume "get_prop (?bids ! i) ''mediaType'' = JUndefined"
      then show "get_prop (results ! i) ''mediaType'' = JStr ''banner''"
        using f by (simp add: js_or_undefined) }
    { assume "get_prop (?bids ! i) ''ttl'' = JUndefined"
      then show "get_prop (results ! i) ''ttl'' = JNum (number ops 10)"
        using f by (simp add: js_or_undefined) }
    { fix ds
      assume "get_prop (get_prop (?bids ! i) ''meta'') ''advertiserDomains'' = JArr ds \<and> ds \<noteq> []"
      then have "bidMeta ops (?bids ! i) = JObj [(''advertiserDomains'', JArr ds)]"
        using bidMeta_copied by blast
      then show "get_prop (results ! i) ''meta'' = JObj [(''advertiserDomains'', JArr ds)]"
        using f by simp }
    { assume "get_prop (get_prop (?bids ! i) ''meta'') ''advertiserDomains'' \<in> {JUndefined, JArr []}"
      then have "bidMeta ops (?bids ! i) = JObj []"
        by (rule bidMeta_empty)
      then show "get_prop (results ! i) ''meta'' = JObj []"
        using f by simp }
  qed
qed


text \<open>A bid without any optional field, and one with a deal, a ttl and advertiser domains.\<close>

theorem optional_fields_defaulted_witness:
  "json_parse example_ops (data \<lparr>http_method = ''POST'', url = ''https://bid.glass/ad/hb.php?src=$$REPO_AND_VERSION$$'',
      data = JObj [(''reqId'', JStr ''r1''), (''gdprConsent'', JStr ''CONSENT123'')],
      contentType = ''text/plain'', withCredentials = False\<rparr>)
     = Some (JObj [(''reqId'', JStr ''r1''), (''gdprConsent'', JStr ''CONSENT123'')])
   \<and> interpretResponse example_ops
     \<lparr>bidResponses =
        [JObj [(''requestId'', JStr ''b1''), (''cpm'', JStr ''2''), (''width'', JStr ''300''),
              (''height'', JStr ''250''), (''creativeId'', JStr ''c7''),
              (''ad'', JStr ''<div>creative one</div>'')],
         JObj [(''requestId'', JStr ''b2''), (''cpm'', JStr ''3''), (''width'', JStr ''728''),
              (''height'', JStr ''90''), (''creativeId'', JStr ''c8''),
              (''dealId'', JStr ''d1''), (''ttl'', JNum (Some 30)),
              (''ad'', JStr ''<div>creative two</div>''),
              (''meta'', JObj [(''advertiserDomains'', JArr [JStr ''adv.example''])])]]\<rparr>
     \<lparr>http_method = ''POST'', url = ''https://bid.glass/ad/hb.php?src=$$REPO_AND_VERSION$$'',
      data = JObj [(''reqId'', JStr ''r1''), (''gdprConsent'', JStr ''CONSENT123'')],
      contentType = ''text/plain'', withCredentials = False\<rparr>
   = Inr [JObj [(''requestId'', JStr ''b1''), (''cpm'', JNum (Some 2)), (''width'', JNum (Some 300)),
              (''height'', JNum (Some 250)), (''creativeId'', JStr ''c7''), (''dealId'', JNull),
              (''currency'', JStr ''USD''), (''mediaType'', JStr ''banner''),
              (''netRevenue'', JBool True), (''ttl'', JNum (Some 10)),
              (''ad'', JStr ''<div>creative one</div>''),
              (''meta'', JObj [])],
          JObj [(''requestId'', JStr ''b2''), (''cpm'', JNum (Some 3)), (''width'', JNum (Some 728)),
              (''height'', JNum (Some 90)), (''creativeId'', JStr ''c8''), (''dealId'', JStr ''d1''),
              (''currency'', JStr ''USD''), (''mediaType'', JStr ''banner''),
              (''netRevenue'', JBool True), (''ttl'', JNum (Some 30)),
              (''ad'', JStr ''<div>creative two</div>''),
              (''meta'', JObj [(''advertiserDomains'', JArr [JStr ''adv.example''])])]]"
proof -
  let ?resp = "\<lparr>bidResponses =
        [JObj [(''requestId'', JStr ''b1''), (''cpm'', JStr ''2''), (''width'', JStr ''300''),
              (''height'', JStr ''250''), (''creativeId'', JStr ''c7''),
              (''ad'', JStr ''<div>creative one</div>'')],
         JObj [(''requestId'', JStr ''b2''), (''cpm'', JStr ''3''), (''width'', JStr ''728''),
              (''height'', JStr ''90''), (''creativeId'', JStr ''c8''),
              (''dealId'', JStr ''d1''), (''ttl'', JNum (Some 30)),
              (''ad'', JStr ''<div>creative two</div>''),
              (''meta'', JObj [(''advertiserDomains'', JArr [JStr ''adv.example''])])]]\<rparr> :: int option server_response"
  let ?req = "\<lparr>http_method = ''POST'', url = ''https://bid.glass/ad/hb.php?src=$$REPO_AND_VERSION$$'',
      data = JObj [(''reqId'', JStr ''r1''), (''gdprConsent'', JStr ''CONSENT123'')],
      contentType = ''text/plain'', withCredentials = False\<rparr> :: int option jsval server_request"
  let ?p = "JObj [(''reqId'', JStr ''r1''), (''gdprConsent'', JStr ''CONSENT123'')] :: int option jsval"
  have h1: "json_parse example_ops (data ?req) = Some ?p"
    by (simp add: example_ops_def)
  have h2: "\<forall>e\<in>set (bidResponses ?resp).
           \<not> nullish e
           \<and> stringifiable (get_prop e ''cpm'')
           \<and> stringifiable (get_prop e ''width'')
           \<and> stringifiable (get_prop e ''height'')
           \<and> (\<exists>markup. get_prop e ''ad'' = JStr markup
                \<and> (sublist ''&replaceme'' markup \<longrightarrow>
                      \<not> nullish ?p
                      \<and> (\<forall>key\<in>set consentKeys. stringifiable (get_prop ?p key))))"
    by (simp add: consentKeys_def)
  from optional_fields_defaulted [OF h1 h2]
  obtain results where "interpretResponse example_ops ?resp ?req = Inr results"
    by blast
  moreover have "interpretResponse example_ops ?resp ?req
      = Inr [JObj [(''requestId'', JStr ''b1''), (''cpm'', JNum (Some 2)), (''width'', JNum (Some 300)),
              (''height'', JNum (Some 250)), (''creativeId'', JStr ''c7''), (''dealId'', JNull),
              (''currency'', JStr ''USD''), (''mediaType'', JStr ''banner''),
              (''netRevenue'', JBool True), (''ttl'', JNum (Some 10)),
              (''ad'', JStr ''<div>creative one</div>''),
              (''meta'', JObj [])],
          JObj [(''requestId'', JStr ''b2''), (''cpm'', JNum (Some 3)), (''width'', JNum (Some 728)),
              (''height'', JNum (Some 90)), (''creativeId'', JStr ''c8''), (''dealId'', JStr ''d1''),
              (''currency'', JStr ''USD''), (''mediaType'', JStr ''banner''),
              (''netRevenue'', JBool True), (''ttl'', JNum (Some 30)),
              (''ad'', JStr ''<div>creative two</div>''),
              (''meta'', JObj [(''advertiserDomains'', JArr [JStr ''adv.example''])])]]"
    by (simp add: interpretResponse_def interpretBid_def replaceToken_def replacement_def
        urlEncodedExtras_def consentKeys_def Let_def bidMeta_def js_or_def example_ops_def
        read_int_def read_nat_def is_digit_def digit_val_def encodeURIComponent_def
        unreserved_def pct_encode_def hex_digit_def)
  ultimately show ?thesis using h1 by simp
qed

section \<open>Determinism and order\<close>

text \<open>
  Claim C9. \<open>interpretResponse\<close> reads its two arguments and nothing else (no counter, no
  clock, no random number), which is why it is a function of them here: interpreting the
  same response against the same request again gives the same list. The list has one
  result for each bid of the response, in the order of the response: the result at each
  position is the interpretation of the bid at that position and carries its \<open>requestId\<close>.
\<close>

theorem interpretation_in_order:
  assumes "interpretResponse ops serverResponse serverRequest = Inr results"
  shows "(\<forall>results'. interpretResponse ops serverResponse serverRequest = Inr results'
            \<longrightarrow> results' = results)
       \<and> length results = length (bidResponses serverResponse)
       \<and> map (\<lambda>r. get_prop r ''requestId'') results
           = map (\<lambda>e. get_prop e ''requestId'') (bidResponses serverResponse)
       \<and> (\<exists>origReq. json_parse ops (data serverRequest) = Some origReq
            \<and> (\<forall>i<length results.
                  interpretBid ops origReq (bidResponses serverResponse ! i) = Inr (results ! i)))"
proof -
  from assms obtain origReq where p: "json_parse ops (data serverRequest) = Some origReq"
    and b: "interpretBids ops origReq (bidResponses serverResponse) = Inr results"
    by (auto simp: interpretResponse_def split: option.splits)
  from interpretBids_nth [OF b]
  have len: "length results = length (bidResponses serverResponse)"
    and nth: "\<forall>i<length (bidResponses serverResponse).
                interpretBid ops origReq (bidResponses serverResponse ! i) = Inr (results ! i)"
    by blast+
  have ids: "map (\<lambda>r. get_prop r ''requestId'') results
           = map (\<lambda>e. get_prop e ''requestId'') (bidResponses serverResponse)"
  proof (rule nth_equalityI)
    show "length (map (\<lambda>r. get_prop r ''requestId'') results)
            = length (map (\<lambda>e. get_prop e ''requestId'') (bidResponses serverResponse))"
      using len by simp
  next
    fix i assume "i < length (map (\<lambda>r. get_prop r ''requestId'') results)"
    then have i: "i < length (bidResponses serverResponse)" using len by simp
    with nth have "interpretBid ops origReq (bidResponses serverResponse ! i) = Inr (results ! i)"
      by blast
    from interpretBid_fields [OF this]
    have "get_prop (results ! i) ''requestId'' = get_prop (bidResponses serverResponse ! i) ''requestId''"
      by blast
    with i len show "map (\<lambda>r. get_prop r ''requestId'') results ! i
            = map (\<lambda>e. get_prop e ''requestId'') (bidResponses serverResponse) ! i"
      by simp
  qed
  from assms have det: "\<forall>results'. interpretResponse ops serverResponse serverRequest = Inr results'
            \<longrightarrow> results' = results"
    by simp
  from det len ids p nth show ?thesis by auto
qed

text \<open>Two bids, returned in the order in which the server sent them.\<close>

theorem interpretation_in_order_witness:
  "interpretResponse example_ops
     \<lparr>bidResponses =
        [JObj [(''requestId'', JStr ''b2''), (''cpm'', JStr ''3''), (''width'', JStr ''728''),
              (''height'', JStr ''90''), (''creativeId'', JStr ''c8''),
              (''dealId'', JStr ''d1''), (''ttl'', JNum (Some 30)),
              (''ad'', JStr ''<div>creative two</div>''),
              (''meta'', JObj [(''advertiserDomains'', JArr [JStr ''adv.example''])])],
         JObj [(''requestId'', JStr ''b1''), (''cpm'', JStr ''2''), (''width'', JStr ''300''),
              (''height'', JStr ''250''), (''creativeId'', JStr ''c7''),
              (''ad'', JStr ''<div>creative one</div>'')]]\<rparr>
     \<lparr>http_method = ''POST'', url = ''https://bid.glass/ad/hb.php?src=$$REPO_AND_VERSION$$'',
      data = JObj [(''reqId'', JStr ''r1''), (''gdprConsent'', JStr ''CONSENT123'')],
      contentType = ''text/plain'', withCredentials = False\<rparr>
   = Inr [JObj [(''requestId'', JStr ''b2''), (''cpm'', JNum (Some 3)), (''width'', JNum (Some 728)),
              (''height'', JNum (Some 90)), (''creativeId'', JStr ''c8''), (''dealId'', JStr ''d1''),
              (''currency'', JStr ''USD''), (''mediaType'', JStr ''banner''),
              (''netRevenue'', JBool True), (''ttl'', JNum (Some 30)),
              (''ad'', JStr ''<div>creative two</div>''),
              (''meta'', JObj [(''advertiserDomains'', JArr [JStr ''adv.example''])])],
          JObj [(''requestId'', JStr ''b1''), (''cpm'', JNum (Some 2)), (''width'', JNum (Some 300)),
              (''height'', JNum (Some 250)), (''creativeId'', JStr ''c7''), (''dealId'', JNull),
              (''currency'', JStr ''USD''), (''mediaType'', JStr ''banner''),
              (''netRevenue'', JBool True), (''ttl'', JNum (Some 10)),
              (''ad'', JStr ''<div>creative one</div>''),
              (''meta'', JObj [])]]
   \<and> map (\<lambda>r. get_prop r ''requestId'')
        [JObj [(''requestId'', JStr ''b2''), (''cpm'', JNum (Some 3)), (''width'', JNum (Some 728)),
              (''height'', JNum (Some 90)), (''creativeId'', JStr ''c8''), (''dealId'', JStr ''d1''),
              (''currency'', JStr ''USD''), (''mediaType'', JStr ''banner''),
              (''netRevenue'', JBool True), (''ttl'', JNum (Some 30)),
              (''ad'', JStr ''<div>creative two</div>''),
              (''meta'', JObj [(''advertiserDomains'', JArr [JStr ''adv.example''])])],
          JObj [(''requestId'', JStr ''b1''), (''cpm'', JNum (Some 2)), (''width'', JNum (Some 300)),
              (''height'', JNum (Some 250)), (''creativeId'', JStr ''c7''), (''dealId'', JNull),
              (''currency'', JStr ''USD''), (''mediaType'', JStr ''banner''),
              (''netRevenue'', JBool True), (''ttl'', JNum (Some 10)),
              (''ad'', JStr ''<div>creative one</div>''),
              (''meta'', JObj [])]]
     = [JStr ''b2'', JStr ''b1'']"
proof -
  let ?resp = "\<lparr>bidResponses =
        [JObj [(''requestId'', JStr ''b2''), (''cpm'', JStr ''3''), (''width'', JStr ''728''),
              (''height'', JStr ''90''), (''creativeId'', JStr ''c8''),
              (''dealId'', JStr ''d1''), (''ttl'', JNum (Some 30)),
              (''ad'', JStr ''<div>creative two</div>''),
              (''meta'', JObj [(''advertiserDomains'', JArr [JStr ''adv.example''])])],
         JObj [(''requestId'', JStr ''b1''), (''cpm'', JStr ''2''), (''width'', JStr ''300''),
              (''height'', JStr ''250''), (''creativeId'', JStr ''c7''),
              (''ad'', JStr ''<div>creative one</div>'')]]\<rparr> :: int option server_response"
  let ?req = "\<lparr>http_method = ''POST'', url = ''https://bid.glass/ad/hb.php?src=$$REPO_AND_VERSION$$'',
      data = JObj [(''reqId'', JStr ''r1''), (''gdprConsent'', JStr ''CONSENT123'')],
      contentType = ''text/plain'', withCredentials = False\<rparr> :: int option jsval server_request"
  let ?rs = "[JObj [(''requestId'', JStr ''b2''), (''cpm'', JNum (Some 3)), (''width'', JNum (Some 728)),
              (''height'', JNum (Some 90)), (''creativeId'', JStr ''c8''), (''dealId'', JStr ''d1''),
              (''currency'', JStr ''USD''), (''mediaType'', JStr ''banner''),
              (''netRevenue'', JBool True), (''ttl'', JNum (Some 30)),
              (''ad'', JStr ''<div>creative two</div>''),
              (''meta'', JObj [(''advertiserDomains'', JArr [JStr ''adv.example''])])],
          JObj [(''requestId'', JStr ''b1''), (''cpm'', JNum (Some 2)), (''width'', JNum (Some 300)),
              (''height'', JNum (Some 250)), (''creativeId'', JStr ''c7''), (''dealId'', JNull),
              (''currency'', JStr ''USD''), (''mediaType'', JStr ''banner''),
              (''netRevenue'', JBool True), (''ttl'', JNum (Some 10)),
              (''ad'', JStr ''<div>creative one</div>''),
              (''meta'', JObj [])]] :: int option jsval list"
  have h: "interpretResponse example_ops ?resp ?req = Inr ?rs"
    by (simp add: interpretResponse_def interpretBid_def replaceToken_def replacement_def
        urlEncodedExtras_def consentKeys_def Let_def bidMeta_def js_or_def example_ops_def
        read_int_def read_nat_def is_digit_def digit_val_def encodeURIComponent_def
        unreserved_def pct_encode_def hex_digit_def)
  from interpretation_in_order [OF h]
  have "map (\<lambda>r. get_prop r ''requestId'') ?rs
           = map (\<lambda>e. get_prop e ''requestId'') (bidResponses ?resp)"
    by blast
  with h show ?thesis by simp
qed

end
